theory Spec2Isabelle
  imports Main
begin

section \<open>Multipart upload processing of express-fileupload\<close>

text \<open>
  The repository holds two versions of the request processor, both a single exported
  function \<^verbatim>\<open>(options, req, res, next) => ...\<close> that registers event handlers:
  \<^item> \<^verbatim>\<open>src/unnamed/part_000\<close>: aggregate size cap (\<^verbatim>\<open>totalSize\<close>), \<^verbatim>\<open>cleanAll\<close>, and the
    wait for the sinks' write promises on \<^verbatim>\<open>finish\<close>;
  \<^item> \<^verbatim>\<open>src/lib/processMultipart.js\<close>: per-part upload timer, no aggregate cap.

  The program is event driven. A session is a record of the variables the handlers close
  over; every handler is a function from session to session; the calls a handler makes on
  its collaborators (\<^verbatim>\<open>next\<close>, \<^verbatim>\<open>res\<close>, \<^verbatim>\<open>req.unpipe\<close>, the sinks' \<^verbatim>\<open>cleanup\<close>, the user's
  limit handlers) are appended to the session's list of effects, in call order. The
  decoder, the timers and the promises are the environment: what they do arrives as a
  list of events. \<^verbatim>\<open>debugLog\<close> only prints and is left out.
\<close>

subsection \<open>Values\<close>

type_synonym buffer = string
type_synonym part_id = nat

datatype error = TypeError | Failure string

text \<open>A value of \<^verbatim>\<open>options\<close> that the code calls: a function or not.\<close>

datatype js_fun = Undefined | Func

text \<open>
  Modelled from the spec: \<^verbatim>\<open>isFunc\<close> of \<^verbatim>\<open>utilities\<close> (not under src/) tells whether a
  configured handler is callable.
\<close>

definition isFunc :: "js_fun \<Rightarrow> bool" where
  "isFunc f = (f = Func)"

text \<open>
  The relation \<^verbatim>\<open>a > b\<close> of JavaScript on numbers, with \<open>None\<close> for \<^verbatim>\<open>undefined\<close> (and for a
  header that is no number): such a comparison is false.
\<close>

fun js_gt :: "nat option \<Rightarrow> nat option \<Rightarrow> bool" where
  "js_gt (Some a) (Some b) = (b < a)"
| "js_gt _ _ = False"

datatype promise = Pending | Fulfilled | Rejected error

datatype timer = Null | Armed | Fired | Cleared

datatype effect =
    LimitHandler
  | NumFilesLimitHandler
  | Next "error option"
  | Unpipe
  | WriteHead nat
  | End string
  | Cleanup part_id
  | Throw error
  | Pipe

record options =
  useTempFiles :: bool
  limits_fileSize :: "nat option"
  limits_totalSize :: "nat option"
  uploadTimeout :: "nat option"
  abortOnLimit :: bool
  responseOnLimit :: "string option"
  limitHandler :: js_fun
  numFilesLimitHandler :: js_fun
  parseNested :: bool
  parseFileName :: "string \<Rightarrow> string"

record request =
  content_length :: "nat option"

text \<open>
  One file part: the arguments of the decoder's \<^verbatim>\<open>file\<close> event, the \<^verbatim>\<open>truncated\<close> flag of its
  stream, and the variables of its sink. The sinks (\<^verbatim>\<open>memHandler\<close>, \<^verbatim>\<open>tempFileHandler\<close>) are not
  under src/; \<open>written\<close> holds the chunks handed to \<^verbatim>\<open>dataHandler\<close>, \<open>writePromise\<close> the state
  of the promise \<^verbatim>\<open>getWritePromise()\<close> returns. \<open>uploadTimer\<close> is the variable of that name in
  \<^verbatim>\<open>lib/processMultipart.js\<close>; \<^verbatim>\<open>part_000\<close> has no timer and leaves it \<open>Null\<close>.
\<close>

record file_part =
  fieldname :: string
  filename :: string
  encoding :: string
  mime :: string
  truncated :: bool
  written :: "buffer list"
  writePromise :: promise
  uploadTimer :: timer

text \<open>The object \<^verbatim>\<open>fileFactory\<close> is given (hash and temporary path left out).\<close>

record artifact =
  a_buffer :: buffer
  a_name :: string
  a_size :: nat
  a_encoding :: string
  a_truncated :: bool
  a_mimetype :: string

type_synonym 'v fields = "(string \<rightharpoonup> 'v list) option"

text \<open>
  One \<^verbatim>\<open>Promise.all(...).then(...).catch(...)\<close> in flight: the promises it was given and the
  first rejection it has seen.
\<close>

record barrier =
  awaited :: "part_id list"
  rejection :: "error option"

record session =
  busboy :: bool
  totalSize :: nat
  cleanups :: "part_id list"
  parts :: "file_part list"
  body :: "string fields"
  files :: "artifact fields"
  waitFlush :: "part_id list option"
  barriers :: "barrier list"
  nested :: nat
  effects :: "effect list"

text \<open>
  What the environment does: \<^verbatim>\<open>aborted\<close> of the request; \<^verbatim>\<open>field\<close>, \<^verbatim>\<open>file\<close>, \<^verbatim>\<open>filesLimit\<close>,
  \<^verbatim>\<open>finish\<close> and \<^verbatim>\<open>error\<close> of the decoder; \<^verbatim>\<open>limit\<close>, \<^verbatim>\<open>data\<close>, \<^verbatim>\<open>end\<close> and \<^verbatim>\<open>error\<close> of the
  stream of a part (parts are numbered in creation order); a sink's write promise is
  fulfilled (\<open>None\<close>) or rejected; the promise reactions that are due run; the timer of a
  part expires, \<^verbatim>\<open>uploadTimeout\<close> milliseconds after it was set.
\<close>

datatype event =
    Aborted
  | Field string string
  | File string string string string
  | FileLimit part_id
  | FileData part_id buffer
  | FileEnd part_id
  | FileError part_id error
  | FilesLimit
  | Finish
  | BusboyError error
  | Settle part_id "error option"
  | Microtask
  | Timeout part_id

subsection \<open>Collaborators that are not under src/\<close>

text \<open>
  Modelled from the spec: \<^verbatim>\<open>buildFields\<close> of \<^verbatim>\<open>utilities\<close>. The first value of a key is stored,
  a repeated key collects its values in arrival order (a one-element list stands for the
  scalar). \<open>None\<close> is \<^verbatim>\<open>null\<close> or \<^verbatim>\<open>undefined\<close>.
\<close>

definition buildFields :: "'v fields \<Rightarrow> string \<Rightarrow> 'v \<Rightarrow> 'v fields" where
  "buildFields inst k v =
     (let m = (case inst of None \<Rightarrow> Map.empty | Some m \<Rightarrow> m)
      in Some (m(k \<mapsto> (case m k of None \<Rightarrow> [v] | Some vs \<Rightarrow> vs @ [v]))))"

text \<open>
  Modelled from the spec: the sink's \<^verbatim>\<open>write(chunk)\<close> ingests the chunk and updates the
  running size, \<^verbatim>\<open>size()\<close> is the accumulated size, \<^verbatim>\<open>finalize()\<close> is the whole payload for
  the memory sink and nothing for the temporary-file sink.
\<close>

definition dataHandler :: "buffer \<Rightarrow> file_part \<Rightarrow> file_part" where
  "dataHandler d fp = fp\<lparr>written := written fp @ [d]\<rparr>"

definition getFileSize :: "file_part \<Rightarrow> nat" where
  "getFileSize fp = sum_list (map length (written fp))"

definition complete :: "options \<Rightarrow> file_part \<Rightarrow> buffer" where
  "complete opts fp = (if useTempFiles opts then [] else concat (written fp))"

definition fileFactory :: "options \<Rightarrow> file_part \<Rightarrow> artifact" where
  "fileFactory opts fp =
     \<lparr>a_buffer = complete opts fp, a_name = filename fp, a_size = getFileSize fp,
      a_encoding = encoding fp, a_truncated = truncated fp, a_mimetype = mime fp\<rparr>"

subsection \<open>Helpers shared by both versions\<close>

definition emit :: "effect list \<Rightarrow> session \<Rightarrow> session" where
  "emit es s = s\<lparr>effects := effects s @ es\<rparr>"

text \<open>
  \<^verbatim>\<open>options.limitHandler(req, res, next)\<close>: calling what is not a function throws a
  TypeError, which leaves the handler at that point.
\<close>

definition call_limitHandler :: "options \<Rightarrow> session \<Rightarrow> session" where
  "call_limitHandler opts s =
     emit [if isFunc (limitHandler opts) then LimitHandler else Throw TypeError] s"

text \<open>\<^verbatim>\<open>code || 400\<close> and \<^verbatim>\<open>reason || 'Bad Request'\<close>: 0, the empty string and undefined are falsy.\<close>

definition closeConnection :: "nat option \<Rightarrow> string option \<Rightarrow> session \<Rightarrow> session" where
  "closeConnection code reason s =
     emit [Unpipe,
           WriteHead (case code of None \<Rightarrow> 400 | Some c \<Rightarrow> if c = 0 then 400 else c),
           End (case reason of None \<Rightarrow> ''Bad Request''
                | Some r \<Rightarrow> if r = [] then ''Bad Request'' else r)] s"

definition cleanAll :: "session \<Rightarrow> session" where
  "cleanAll s = emit (map Cleanup (cleanups s)) s"

definition on_field :: "string \<Rightarrow> string \<Rightarrow> session \<Rightarrow> session" where
  "on_field k v s = s\<lparr>body := buildFields (body s) k v\<rparr>"

definition on_filesLimit :: "options \<Rightarrow> session \<Rightarrow> session" where
  "on_filesLimit opts s =
     (if isFunc (numFilesLimitHandler opts) then emit [NumFilesLimitHandler] s else s)"

definition new_part :: "options \<Rightarrow> string \<Rightarrow> string \<Rightarrow> string \<Rightarrow> string \<Rightarrow> file_part" where
  "new_part opts fld name enc mim =
     \<lparr>fieldname = fld, filename = parseFileName opts name, encoding = enc, mime = mim,
      truncated = False, written = [], writePromise = Pending, uploadTimer = Null\<rparr>"

definition upd_part :: "part_id \<Rightarrow> (file_part \<Rightarrow> file_part) \<Rightarrow> session \<Rightarrow> session" where
  "upd_part p f s = s\<lparr>parts := (parts s)[p := f (parts s ! p)]\<rparr>"

text \<open>
  Modelled from the spec: the decoder sets the \<^verbatim>\<open>truncated\<close> flag of a part's stream when it
  signals the per-file limit.
\<close>

definition mark_truncated :: "part_id \<Rightarrow> session \<Rightarrow> session" where
  "mark_truncated p s = upd_part p (\<lambda>fp. fp\<lparr>truncated := True\<rparr>) s"


subsection \<open>src/unnamed/part_000\<close>

definition processMultipart :: "options \<Rightarrow> request \<Rightarrow> session" where
  "processMultipart opts req =
     (let s = \<lparr>busboy = False, totalSize = 0, cleanups = [], parts = [], body = None,
               files = None, waitFlush = None, barriers = [], nested = 0, effects = []\<rparr>
      in if js_gt (content_length req) (limits_totalSize opts)
         then call_limitHandler opts s
         else emit [Pipe] (s\<lparr>busboy := True\<rparr>))"

definition on_aborted :: "session \<Rightarrow> session" where
  "on_aborted s = cleanAll s"

definition on_file :: "options \<Rightarrow> string \<Rightarrow> string \<Rightarrow> string \<Rightarrow> string \<Rightarrow> session \<Rightarrow> session" where
  "on_file opts fld name enc mim s =
     s\<lparr>cleanups := cleanups s @ [length (parts s)],
       parts := parts s @ [new_part opts fld name enc mim]\<rparr>"

definition on_file_limit :: "options \<Rightarrow> part_id \<Rightarrow> session \<Rightarrow> session" where
  "on_file_limit opts p s =
     (if isFunc (limitHandler opts)
      then call_limitHandler opts (cleanAll (emit [Unpipe] s))
      else if abortOnLimit opts
      then cleanAll (closeConnection (Some 413) (responseOnLimit opts) s)
      else s)"

definition on_file_data :: "options \<Rightarrow> part_id \<Rightarrow> buffer \<Rightarrow> session \<Rightarrow> session" where
  "on_file_data opts p d s =
     (let s1 = s\<lparr>totalSize := totalSize s + length d\<rparr>
      in if js_gt (Some (totalSize s1)) (limits_totalSize opts)
         then call_limitHandler opts (cleanAll (emit [Unpipe] s1))
         else upd_part p (dataHandler d) s1)"

definition on_file_end :: "options \<Rightarrow> part_id \<Rightarrow> session \<Rightarrow> session" where
  "on_file_end opts p s =
     (let s1 = s\<lparr>files := buildFields (files s) (fieldname (parts s ! p))
                             (fileFactory opts (parts s ! p))\<rparr>;
          s2 = (case waitFlush s1 of None \<Rightarrow> s1\<lparr>waitFlush := Some []\<rparr> | Some w \<Rightarrow> s1)
      in s2\<lparr>waitFlush := map_option (\<lambda>w. w @ [p]) (waitFlush s2)\<rparr>)"

definition on_file_error :: "part_id \<Rightarrow> session \<Rightarrow> session" where
  "on_file_error p s = emit [Next None] (cleanAll s)"

text \<open>The function \<^verbatim>\<open>handler\<close> of the \<^verbatim>\<open>finish\<close> callback; \<open>nested\<close> counts the passes of
  \<^verbatim>\<open>processNested\<close> (not under src/) over \<^verbatim>\<open>req.body\<close> and \<^verbatim>\<open>req.files\<close>.\<close>

definition handler :: "options \<Rightarrow> error option \<Rightarrow> session \<Rightarrow> session" where
  "handler opts err s =
     emit [Next err] (if parseNested opts then s\<lparr>nested := Suc (nested s)\<rparr> else s)"

text \<open>
  \<^verbatim>\<open>Promise.all\<close> reads its argument when it is called: promises that are rejected by then
  reach it in array order.
\<close>

fun first_rejection :: "file_part list \<Rightarrow> part_id list \<Rightarrow> error option" where
  "first_rejection fps [] = None"
| "first_rejection fps (p # ps) =
     (case writePromise (fps ! p) of Rejected e \<Rightarrow> Some e | _ \<Rightarrow> first_rejection fps ps)"

definition on_finish :: "options \<Rightarrow> session \<Rightarrow> session" where
  "on_finish opts s =
     (case waitFlush s of
        Some w \<Rightarrow> s\<lparr>barriers := barriers s @
                     [\<lparr>awaited = w, rejection = first_rejection (parts s) w\<rparr>]\<rparr>
      | None \<Rightarrow> handler opts None s)"

definition on_busboy_error :: "error \<Rightarrow> session \<Rightarrow> session" where
  "on_busboy_error e s = emit [Next (Some e)] s"

text \<open>A write promise settles (once): a rejection reaches every undecided \<^verbatim>\<open>Promise.all\<close>
  that waits for it.\<close>

definition note_rejection :: "part_id \<Rightarrow> error \<Rightarrow> barrier \<Rightarrow> barrier" where
  "note_rejection p e b =
     (if p \<in> set (awaited b) \<and> rejection b = None then b\<lparr>rejection := Some e\<rparr> else b)"

definition settle :: "part_id \<Rightarrow> error option \<Rightarrow> session \<Rightarrow> session" where
  "settle p r s =
     (if writePromise (parts s ! p) = Pending
      then (case r of
              None \<Rightarrow> upd_part p (\<lambda>fp. fp\<lparr>writePromise := Fulfilled\<rparr>) s
            | Some e \<Rightarrow> (upd_part p (\<lambda>fp. fp\<lparr>writePromise := Rejected e\<rparr>) s)
                          \<lparr>barriers := map (note_rejection p e) (barriers s)\<rparr>)
      else s)"

definition all_fulfilled :: "file_part list \<Rightarrow> part_id list \<Rightarrow> bool" where
  "all_fulfilled fps w = list_all (\<lambda>p. writePromise (fps ! p) = Fulfilled) w"

text \<open>The reactions of one \<^verbatim>\<open>Promise.all\<close>: the \<^verbatim>\<open>catch\<close> callback after a rejection, the
  \<^verbatim>\<open>then\<close> callback when every promise is fulfilled, nothing while it is undecided.
  (\<^verbatim>\<open>next\<close> and \<^verbatim>\<open>processNested\<close> are taken not to throw inside the \<^verbatim>\<open>then\<close> callback.)\<close>

definition react :: "options \<Rightarrow> barrier \<Rightarrow> session \<Rightarrow> session" where
  "react opts b s =
     (case rejection b of
        Some e \<Rightarrow> handler opts (Some e) (s\<lparr>waitFlush := None\<rparr>)
      | None \<Rightarrow> if all_fulfilled (parts s) (awaited b)
                then handler opts None (s\<lparr>waitFlush := None\<rparr>)
                else s\<lparr>barriers := barriers s @ [b]\<rparr>)"

definition microtask :: "options \<Rightarrow> session \<Rightarrow> session" where
  "microtask opts s = fold (react opts) (barriers s) (s\<lparr>barriers := []\<rparr>)"

text \<open>
  One event. Without a decoder (fast reject) no handler is registered; a part's events
  reach handlers only when the part exists.
\<close>

fun step :: "options \<Rightarrow> session \<Rightarrow> event \<Rightarrow> session" where
  "step opts s Aborted = (if busboy s then on_aborted s else s)"
| "step opts s (Field k v) = (if busboy s then on_field k v s else s)"
| "step opts s (File fld name enc mim) =
     (if busboy s then on_file opts fld name enc mim s else s)"
| "step opts s (FileLimit p) =
     (if busboy s \<and> p < length (parts s) then on_file_limit opts p (mark_truncated p s) else s)"
| "step opts s (FileData p d) =
     (if busboy s \<and> p < length (parts s) then on_file_data opts p d s else s)"
| "step opts s (FileEnd p) =
     (if busboy s \<and> p < length (parts s) then on_file_end opts p s else s)"
| "step opts s (FileError p e) =
     (if busboy s \<and> p < length (parts s) then on_file_error p s else s)"
| "step opts s FilesLimit = (if busboy s then on_filesLimit opts s else s)"
| "step opts s Finish = (if busboy s then on_finish opts s else s)"
| "step opts s (BusboyError e) = (if busboy s then on_busboy_error e s else s)"
| "step opts s (Settle p r) = (if p < length (parts s) then settle p r s else s)"
| "step opts s Microtask = microtask opts s"
| "step opts s (Timeout p) = s"

definition run :: "options \<Rightarrow> session \<Rightarrow> event list \<Rightarrow> session" where
  "run opts s es = foldl (step opts) s es"

subsection \<open>src/lib/processMultipart.js\<close>

definition lib_processMultipart :: "options \<Rightarrow> request \<Rightarrow> session" where
  "lib_processMultipart opts req =
     \<lparr>busboy = True, totalSize = 0, cleanups = [], parts = [], body = None,
      files = None, waitFlush = None, barriers = [], nested = 0, effects = [Pipe]\<rparr>"

definition clearUploadTimer :: "file_part \<Rightarrow> file_part" where
  "clearUploadTimer fp = (if uploadTimer fp = Armed then fp\<lparr>uploadTimer := Cleared\<rparr> else fp)"

definition setUploadTimer :: "file_part \<Rightarrow> file_part" where
  "setUploadTimer fp = (clearUploadTimer fp)\<lparr>uploadTimer := Armed\<rparr>"

definition lib_on_aborted :: "session \<Rightarrow> session" where
  "lib_on_aborted s = emit (map Cleanup (cleanups s)) s"

definition lib_on_file :: "options \<Rightarrow> string \<Rightarrow> string \<Rightarrow> string \<Rightarrow> string \<Rightarrow> session \<Rightarrow> session" where
  "lib_on_file opts fld name enc mim s =
     s\<lparr>cleanups := cleanups s @ [length (parts s)],
       parts := parts s @ [setUploadTimer (new_part opts fld name enc mim)]\<rparr>"

definition lib_on_file_limit :: "options \<Rightarrow> part_id \<Rightarrow> session \<Rightarrow> session" where
  "lib_on_file_limit opts p s =
     (if isFunc (limitHandler opts)
      then call_limitHandler opts s
      else if abortOnLimit opts
      then emit [Cleanup p] (closeConnection (Some 413) (responseOnLimit opts) s)
      else s)"

definition lib_on_file_data :: "part_id \<Rightarrow> buffer \<Rightarrow> session \<Rightarrow> session" where
  "lib_on_file_data p d s = upd_part p (dataHandler d) s"

definition lib_on_file_end :: "options \<Rightarrow> part_id \<Rightarrow> session \<Rightarrow> session" where
  "lib_on_file_end opts p s =
     s\<lparr>files := buildFields (files s) (fieldname (parts s ! p))
                  (fileFactory opts (parts s ! p))\<rparr>"

definition lib_on_file_error :: "part_id \<Rightarrow> session \<Rightarrow> session" where
  "lib_on_file_error p s = emit [Cleanup p, Next None] s"

definition lib_on_finish :: "options \<Rightarrow> session \<Rightarrow> session" where
  "lib_on_finish opts s =
     emit [Next None] (if parseNested opts then s\<lparr>nested := Suc (nested s)\<rparr> else s)"

text \<open>The callback given to \<^verbatim>\<open>setTimeout\<close> runs once, unless the timer was cleared before.\<close>

definition on_timeout :: "part_id \<Rightarrow> session \<Rightarrow> session" where
  "on_timeout p s =
     (if uploadTimer (parts s ! p) = Armed
      then emit [Cleanup p] (upd_part p (\<lambda>fp. fp\<lparr>uploadTimer := Fired\<rparr>) s)
      else s)"

fun lib_step :: "options \<Rightarrow> session \<Rightarrow> event \<Rightarrow> session" where
  "lib_step opts s Aborted = lib_on_aborted s"
| "lib_step opts s (Field k v) = on_field k v s"
| "lib_step opts s (File fld name enc mim) = lib_on_file opts fld name enc mim s"
| "lib_step opts s (FileLimit p) =
     (if p < length (parts s) then lib_on_file_limit opts p (mark_truncated p s) else s)"
| "lib_step opts s (FileData p d) =
     (if p < length (parts s) then lib_on_file_data p d s else s)"
| "lib_step opts s (FileEnd p) =
     (if p < length (parts s) then lib_on_file_end opts p s else s)"
| "lib_step opts s (FileError p e) =
     (if p < length (parts s) then lib_on_file_error p s else s)"
| "lib_step opts s FilesLimit = on_filesLimit opts s"
| "lib_step opts s Finish = lib_on_finish opts s"
| "lib_step opts s (BusboyError e) = on_busboy_error e s"
| "lib_step opts s (Settle p r) = s"
| "lib_step opts s Microtask = s"
| "lib_step opts s (Timeout p) = (if p < length (parts s) then on_timeout p s else s)"

definition lib_run :: "options \<Rightarrow> session \<Rightarrow> event list \<Rightarrow> session" where
  "lib_run opts s es = foldl (lib_step opts) s es"

subsection \<open>Observations\<close>

text \<open>The bytes handed to the data handlers of all sinks of the session.\<close>

definition delivered :: "session \<Rightarrow> nat" where
  "delivered s = sum_list (map getFileSize (parts s))"

text \<open>The arguments of the calls of \<^verbatim>\<open>next\<close>, in call order.\<close>

fun next_calls :: "effect list \<Rightarrow> error option list" where
  "next_calls [] = []"
| "next_calls (Next r # fs) = r # next_calls fs"
| "next_calls (f # fs) = next_calls fs"

fun is_error_event :: "event \<Rightarrow> bool" where
  "is_error_event (FileError p e) = True"
| "is_error_event (BusboyError e) = True"
| "is_error_event e = False"

definition registered :: "session \<Rightarrow> part_id list" where
  "registered s = (case waitFlush s of None \<Rightarrow> [] | Some w \<Rightarrow> w)"

text \<open>
  Every part registered one cleanup, in creation order; without a decoder there is no part.
\<close>

definition wf :: "session \<Rightarrow> bool" where
  "wf s = (cleanups s = [0..<length (parts s)] \<and> (busboy s \<or> parts s = []))"

text \<open>
  The aggregate counter against the bytes delivered: never less, equal while the counter
  is within the cap, and the bytes delivered within the cap.
\<close>

definition accounted :: "nat option \<Rightarrow> session \<Rightarrow> bool" where
  "accounted lim s =
     (delivered s \<le> totalSize s
      \<and> (js_gt (Some (totalSize s)) lim \<or> delivered s = totalSize s)
      \<and> \<not> js_gt (Some (delivered s)) lim)"

text \<open>
  The wait for the write promises. Before \<^verbatim>\<open>finish\<close> a session is quiet: no
  \<^verbatim>\<open>Promise.all\<close> in flight, no call of \<^verbatim>\<open>next\<close>. After \<^verbatim>\<open>finish\<close> found the promises \<open>w\<close>,
  either the one \<^verbatim>\<open>Promise.all\<close> over \<open>w\<close> is in flight and \<^verbatim>\<open>next\<close> has not been called, or it
  has reacted and \<^verbatim>\<open>next\<close> has been called once, without an error only if all of \<open>w\<close> are
  fulfilled.
\<close>

definition valid_ids :: "session \<Rightarrow> part_id list \<Rightarrow> bool" where
  "valid_ids s w = list_all (\<lambda>p. p < length (parts s)) w"

definition barrier_inv :: "part_id list \<Rightarrow> session \<Rightarrow> bool" where
  "barrier_inv w s =
     (valid_ids s w \<and>
      (if barriers s = []
       then length (next_calls (effects s)) = 1
            \<and> (next_calls (effects s) \<noteq> [None] \<or> all_fulfilled (parts s) w)
       else map awaited (barriers s) = [w] \<and> next_calls (effects s) = []))"

definition no_error_events :: "event list \<Rightarrow> bool" where
  "no_error_events es = list_all (\<lambda>e. \<not> is_error_event e) es"

definition quiet :: "session \<Rightarrow> bool" where
  "quiet s = (barriers s = [] \<and> next_calls (effects s) = [] \<and> valid_ids s (registered s))"

subsection \<open>Sample sessions\<close>

definition demo_options :: options where
  "demo_options =
     \<lparr>useTempFiles = False, limits_fileSize = Some 2, limits_totalSize = Some 5,
      uploadTimeout = Some 1000, abortOnLimit = False, responseOnLimit = None,
      limitHandler = Func, numFilesLimitHandler = Undefined, parseNested = False,
      parseFileName = (\<lambda>n. n)\<rparr>"

definition bare_options :: options where
  "bare_options = demo_options\<lparr>limitHandler := Undefined\<rparr>"

definition abort_options :: options where
  "abort_options = bare_options\<lparr>abortOnLimit := True\<rparr>"

definition demo_request :: request where
  "demo_request = \<lparr>content_length = Some 5\<rparr>"

definition big_request :: request where
  "big_request = \<lparr>content_length = Some 6\<rparr>"

definition demo_session :: session where
  "demo_session =
     run demo_options (processMultipart demo_options demo_request)
       [File ''doc'' ''a.txt'' ''7bit'' ''text/plain'', FileData 0 ''ab'']"

definition lib_session :: session where
  "lib_session =
     lib_run demo_options (lib_processMultipart demo_options demo_request)
       [File ''doc'' ''a.txt'' ''7bit'' ''text/plain'', FileData 0 ''ab'']"

section \<open>Properties\<close>

subsection \<open>The sample sessions, evaluated\<close>

lemma demo_session_eq:
  "demo_session =
     \<lparr>busboy = True, totalSize = 2, cleanups = [0],
      parts = [\<lparr>fieldname = ''doc'', filename = ''a.txt'', encoding = ''7bit'',
                mime = ''text/plain'', truncated = False, written = [''ab''],
                writePromise = Pending, uploadTimer = Null\<rparr>],
      body = None, files = None, waitFlush = None, barriers = [], nested = 0,
      effects = [Pipe]\<rparr>"
  by (simp add: demo_session_def demo_options_def demo_request_def run_def
      processMultipart_def emit_def on_file_def new_part_def on_file_data_def upd_part_def
      dataHandler_def)

lemma lib_session_eq:
  "lib_session =
     \<lparr>busboy = True, totalSize = 0, cleanups = [0],
      parts = [\<lparr>fieldname = ''doc'', filename = ''a.txt'', encoding = ''7bit'',
                mime = ''text/plain'', truncated = False, written = [''ab''],
                writePromise = Pending, uploadTimer = Armed\<rparr>],
      body = None, files = None, waitFlush = None, barriers = [], nested = 0,
      effects = [Pipe]\<rparr>"
  by (simp add: lib_session_def demo_options_def lib_run_def lib_processMultipart_def
      lib_on_file_def new_part_def setUploadTimer_def clearUploadTimer_def
      lib_on_file_data_def upd_part_def dataHandler_def)

lemma demo_options_simps:
  "limits_totalSize demo_options = Some 5" "limits_fileSize demo_options = Some 2"
  "limitHandler demo_options = Func" "\<not> abortOnLimit demo_options"
  "responseOnLimit demo_options = None" "\<not> parseNested demo_options"
  "\<not> useTempFiles demo_options" "parseFileName demo_options = (\<lambda>n. n)"
  "numFilesLimitHandler demo_options = Undefined"
  by (simp_all add: demo_options_def)

lemma bare_options_simps:
  "limits_totalSize bare_options = Some 5" "limits_fileSize bare_options = Some 2"
  "limitHandler bare_options = Undefined" "\<not> abortOnLimit bare_options"
  "responseOnLimit bare_options = None" "\<not> parseNested bare_options"
  "\<not> useTempFiles bare_options" "parseFileName bare_options = (\<lambda>n. n)"
  "numFilesLimitHandler bare_options = Undefined"
  by (simp_all add: bare_options_def demo_options_def)

lemma abort_options_simps:
  "limits_totalSize abort_options = Some 5" "limits_fileSize abort_options = Some 2"
  "limitHandler abort_options = Undefined" "abortOnLimit abort_options"
  "responseOnLimit abort_options = None" "\<not> parseNested abort_options"
  "\<not> useTempFiles abort_options" "parseFileName abort_options = (\<lambda>n. n)"
  "numFilesLimitHandler abort_options = Undefined"
  by (simp_all add: abort_options_def bare_options_def demo_options_def)

subsection \<open>Frame and well-formedness\<close>

lemma react_frame [simp]:
  "parts (react opts b s) = parts s" "cleanups (react opts b s) = cleanups s"
  "totalSize (react opts b s) = totalSize s" "busboy (react opts b s) = busboy s"
  by (simp_all add: react_def handler_def emit_def split: option.split)

lemma fold_react_frame [simp]:
  "parts (fold (react opts) bs s) = parts s" "cleanups (fold (react opts) bs s) = cleanups s"
  "totalSize (fold (react opts) bs s) = totalSize s" "busboy (fold (react opts) bs s) = busboy s"
  by (induction bs arbitrary: s) simp_all

lemma microtask_frame [simp]:
  "parts (microtask opts s) = parts s" "cleanups (microtask opts s) = cleanups s"
  "totalSize (microtask opts s) = totalSize s" "busboy (microtask opts s) = busboy s"
  by (simp_all add: microtask_def)

lemmas handler_defs =
  on_aborted_def on_field_def on_file_def on_file_limit_def on_file_data_def on_file_end_def
  on_file_error_def on_filesLimit_def on_finish_def on_busboy_error_def settle_def
  cleanAll_def closeConnection_def call_limitHandler_def handler_def emit_def upd_part_def
  mark_truncated_def

lemmas lib_handler_defs =
  lib_on_aborted_def on_field_def lib_on_file_def lib_on_file_limit_def lib_on_file_data_def
  lib_on_file_end_def lib_on_file_error_def on_filesLimit_def lib_on_finish_def
  on_busboy_error_def on_timeout_def closeConnection_def call_limitHandler_def emit_def
  upd_part_def mark_truncated_def

lemma step_wf: "wf s \<Longrightarrow> wf (step opts s e)"
  unfolding wf_def
  by (cases e) (auto simp add: handler_defs Let_def split: option.split)

lemma run_wf: "wf s \<Longrightarrow> wf (run opts s es)"
  unfolding run_def by (induction es arbitrary: s) (simp_all add: step_wf)

lemma lib_step_wf: "wf s \<Longrightarrow> busboy s \<Longrightarrow> wf (lib_step opts s e) \<and> busboy (lib_step opts s e)"
  unfolding wf_def
  by (cases e) (auto simp add: lib_handler_defs)

lemma lib_run_wf: "wf s \<Longrightarrow> busboy s \<Longrightarrow> wf (lib_run opts s es)"
  unfolding lib_run_def by (induction es arbitrary: s) (simp_all add: lib_step_wf)

lemma processMultipart_wf:
  "wf (processMultipart opts req)" "wf (lib_processMultipart opts req)"
  "busboy (lib_processMultipart opts req)"
  by (simp_all add: wf_def processMultipart_def lib_processMultipart_def
      call_limitHandler_def emit_def Let_def)


lemma next_calls_append [simp]: "next_calls (fs @ gs) = next_calls fs @ next_calls gs"
  by (induction fs rule: next_calls.induct) simp_all

lemma next_calls_cleanups [simp]: "next_calls (map Cleanup ps) = []"
  by (induction ps) simp_all

subsection \<open>Fast reject\<close>

lemma step_detached:
  "\<not> busboy s \<Longrightarrow> parts s = [] \<Longrightarrow> barriers s = [] \<Longrightarrow> step opts s e = s"
  by (cases e) (simp_all add: microtask_def)

lemma run_detached:
  "\<not> busboy s \<Longrightarrow> parts s = [] \<Longrightarrow> barriers s = [] \<Longrightarrow> run opts s es = s"
  unfolding run_def by (induction es) (simp_all add: step_detached)

text \<open>
  C4. When the declared Content-Length exceeds \<^verbatim>\<open>limits.totalSize\<close> and a limit handler is
  configured, the processor calls the limit handler and returns without constructing the
  decoder: whatever events follow, the limit handler has been called exactly once and
  nothing else was called, no part (and so no sink and no cleanup) exists, and neither the
  field nor the file mapping has been built.
\<close>

theorem fast_reject:
  assumes "js_gt (content_length req) (limits_totalSize opts)"
    and "isFunc (limitHandler opts)"
  shows "effects (run opts (processMultipart opts req) es) = [LimitHandler]
       \<and> \<not> busboy (run opts (processMultipart opts req) es)
       \<and> parts (run opts (processMultipart opts req) es) = []
       \<and> cleanups (run opts (processMultipart opts req) es) = []
       \<and> body (run opts (processMultipart opts req) es) = None
       \<and> files (run opts (processMultipart opts req) es) = None"
proof -
  let ?s = "processMultipart opts req"
  have s: "?s = \<lparr>busboy = False, totalSize = 0, cleanups = [], parts = [], body = None,
      files = None, waitFlush = None, barriers = [], nested = 0, effects = [LimitHandler]\<rparr>"
    using assms by (simp add: processMultipart_def call_limitHandler_def emit_def)
  have "run opts ?s es = ?s"
    by (rule run_detached) (simp_all add: s)
  then show ?thesis by (simp add: s)
qed

theorem fast_reject_witness:
  "js_gt (content_length big_request) (limits_totalSize demo_options)
   \<and> isFunc (limitHandler demo_options)
   \<and> effects (run demo_options (processMultipart demo_options big_request)
        [File ''doc'' ''a.txt'' ''7bit'' ''text/plain'', FileData 0 ''ab'', FileEnd 0, Finish])
       = [LimitHandler]
   \<and> parts (run demo_options (processMultipart demo_options big_request)
        [File ''doc'' ''a.txt'' ''7bit'' ''text/plain'', FileData 0 ''ab'', FileEnd 0, Finish])
       = []"
  using fast_reject [of big_request demo_options
      "[File ''doc'' ''a.txt'' ''7bit'' ''text/plain'', FileData 0 ''ab'', FileEnd 0, Finish]"]
  by (simp add: big_request_def demo_options_simps isFunc_def)

subsection \<open>A limit handler that is no function\<close>

text \<open>
  C9. When \<^verbatim>\<open>options.limitHandler\<close> is not a function, the fast-reject path and the
  aggregate-limit path still call it, and the call throws a TypeError (in the aggregate
  path after the unpipe and the cleanups); the per-file limit path tests \<^verbatim>\<open>isFunc\<close> first
  and goes on without calling it: it closes the connection when \<^verbatim>\<open>abortOnLimit\<close> is set and
  does nothing otherwise.
\<close>

theorem limitHandler_not_a_function:
  assumes "\<not> isFunc (limitHandler opts)"
  shows "(js_gt (content_length req) (limits_totalSize opts) \<longrightarrow>
            effects (processMultipart opts req) = [Throw TypeError])
       \<and> (busboy s \<and> p < length (parts s)
            \<and> js_gt (Some (totalSize s + length d)) (limits_totalSize opts) \<longrightarrow>
            effects (step opts s (FileData p d))
              = effects s @ [Unpipe] @ map Cleanup (cleanups s) @ [Throw TypeError])
       \<and> (busboy s \<and> p < length (parts s) \<longrightarrow>
            effects (step opts s (FileLimit p))
              = effects s @
                (if abortOnLimit opts
                 then [Unpipe, WriteHead 413,
                       End (case responseOnLimit opts of None \<Rightarrow> ''Bad Request''
                            | Some r \<Rightarrow> if r = [] then ''Bad Request'' else r)]
                      @ map Cleanup (cleanups s)
                 else []))"
  using assms
  by (simp add: processMultipart_def call_limitHandler_def emit_def on_file_data_def
      cleanAll_def on_file_limit_def closeConnection_def mark_truncated_def upd_part_def)

theorem limitHandler_not_a_function_witness:
  "\<not> isFunc (limitHandler bare_options)
   \<and> js_gt (content_length big_request) (limits_totalSize bare_options)
   \<and> effects (processMultipart bare_options big_request) = [Throw TypeError]
   \<and> busboy demo_session \<and> 0 < length (parts demo_session)
   \<and> js_gt (Some (totalSize demo_session + length ''wxyz'')) (limits_totalSize bare_options)
   \<and> effects (step bare_options demo_session (FileData 0 ''wxyz''))
        = [Pipe, Unpipe, Cleanup 0, Throw TypeError]
   \<and> effects (step bare_options demo_session (FileLimit 0)) = [Pipe]"
  using limitHandler_not_a_function [of bare_options big_request demo_session 0 "''wxyz''"]
  by (simp add: demo_session_eq) (simp add: bare_options_simps big_request_def isFunc_def)

subsection \<open>Strict comparisons\<close>

text \<open>
  C10. Both size checks are strict. A request whose declared Content-Length equals
  \<^verbatim>\<open>limits.totalSize\<close> is not rejected: the decoder is constructed and the request piped
  into it. A chunk that brings the aggregate counter to exactly \<^verbatim>\<open>limits.totalSize\<close> calls
  nothing and is appended to the chunks of its sink.
\<close>

theorem strict_caps:
  assumes "limits_totalSize opts = Some cap"
  shows "(content_length req = Some cap \<longrightarrow>
            busboy (processMultipart opts req) \<and> effects (processMultipart opts req) = [Pipe])
       \<and> (busboy s \<and> p < length (parts s) \<and> totalSize s + length d = cap \<longrightarrow>
            effects (step opts s (FileData p d)) = effects s
          \<and> totalSize (step opts s (FileData p d)) = cap
          \<and> written (parts (step opts s (FileData p d)) ! p) = written (parts s ! p) @ [d])"
  using assms
  by (simp add: processMultipart_def emit_def on_file_data_def upd_part_def dataHandler_def)

theorem strict_caps_witness:
  "limits_totalSize demo_options = Some 5
   \<and> content_length demo_request = Some 5
   \<and> busboy (processMultipart demo_options demo_request)
   \<and> effects (processMultipart demo_options demo_request) = [Pipe]
   \<and> busboy demo_session \<and> 0 < length (parts demo_session)
   \<and> totalSize demo_session + length ''xyz'' = 5
   \<and> effects (step demo_options demo_session (FileData 0 ''xyz'')) = [Pipe]
   \<and> totalSize (step demo_options demo_session (FileData 0 ''xyz'')) = 5
   \<and> written (parts (step demo_options demo_session (FileData 0 ''xyz'')) ! 0)
        = [''ab'', ''xyz'']"
  using strict_caps [of demo_options 5 demo_request demo_session 0 "''xyz''"]
  by (simp add: demo_session_eq) (simp add: demo_options_simps demo_request_def)

subsection \<open>The per-file limit\<close>

text \<open>
  C5, as stated, fails: with \<^verbatim>\<open>abortOnLimit\<close> set, no limit handler and no configured reason,
  the per-file limit closes the connection with status 413, not 400, in both versions; 400
  is only what \<^verbatim>\<open>closeConnection\<close> falls back to for a falsy code, and this path passes 413.
\<close>

theorem file_limit_status_counterexample:
  "\<not> isFunc (limitHandler abort_options) \<and> abortOnLimit abort_options
   \<and> effects (step abort_options demo_session (FileLimit 0))
       = [Pipe, Unpipe, WriteHead 413, End ''Bad Request'', Cleanup 0]
   \<and> WriteHead 400 \<notin> set (effects (step abort_options demo_session (FileLimit 0)))
   \<and> effects (lib_step abort_options lib_session (FileLimit 0))
       = [Pipe, Unpipe, WriteHead 413, End ''Bad Request'', Cleanup 0]"
  by (simp add: demo_session_eq lib_session_eq abort_options_simps isFunc_def
      on_file_limit_def lib_on_file_limit_def mark_truncated_def upd_part_def
      closeConnection_def cleanAll_def emit_def)

text \<open>
  C5, amended. When a per-file limit signal arrives, no limit handler is configured and
  \<^verbatim>\<open>abortOnLimit\<close> is set, the request is unpiped and the connection closed with status 413
  (fixed by the call) and the reason \<^verbatim>\<open>options.responseOnLimit\<close>, "Bad Request" when that is
  unset or empty; then \<^verbatim>\<open>part_000\<close> runs every registered cleanup, and
  \<^verbatim>\<open>lib/processMultipart.js\<close> runs the cleanup of that part only.
\<close>

theorem file_limit_abort:
  assumes "\<not> isFunc (limitHandler opts)" and "abortOnLimit opts"
    and "busboy s" and "p < length (parts s)"
  shows "effects (step opts s (FileLimit p))
           = effects s @ [Unpipe, WriteHead 413,
                          End (case responseOnLimit opts of None \<Rightarrow> ''Bad Request''
                               | Some r \<Rightarrow> if r = [] then ''Bad Request'' else r)]
                       @ map Cleanup (cleanups s)
       \<and> effects (lib_step opts s (FileLimit p))
           = effects s @ [Unpipe, WriteHead 413,
                          End (case responseOnLimit opts of None \<Rightarrow> ''Bad Request''
                               | Some r \<Rightarrow> if r = [] then ''Bad Request'' else r),
                          Cleanup p]"
  using assms
  by (simp add: on_file_limit_def lib_on_file_limit_def mark_truncated_def upd_part_def
      closeConnection_def cleanAll_def emit_def)

theorem file_limit_abort_witness:
  "\<not> isFunc (limitHandler abort_options) \<and> abortOnLimit abort_options
   \<and> busboy demo_session \<and> 0 < length (parts demo_session)
   \<and> effects (step abort_options demo_session (FileLimit 0))
       = [Pipe, Unpipe, WriteHead 413, End ''Bad Request'', Cleanup 0]
   \<and> effects (lib_step abort_options demo_session (FileLimit 0))
       = [Pipe, Unpipe, WriteHead 413, End ''Bad Request'', Cleanup 0]"
  using file_limit_abort [of abort_options demo_session 0]
  by (simp add: demo_session_eq) (simp add: abort_options_simps isFunc_def)









subsection \<open>Client abort\<close>

text \<open>
  C8. In every reachable session of either version, the \<^verbatim>\<open>aborted\<close> event calls the
  registered cleanups, which are one per part, each exactly once and in creation order, and
  nothing else: no call of \<^verbatim>\<open>next\<close> is added.
\<close>

theorem abort_runs_cleanups:
  "effects (step opts (run opts (processMultipart opts req) es) Aborted)
     = effects (run opts (processMultipart opts req) es)
       @ map Cleanup [0..<length (parts (run opts (processMultipart opts req) es))]
   \<and> cleanups (run opts (processMultipart opts req) es)
     = [0..<length (parts (run opts (processMultipart opts req) es))]
   \<and> next_calls (effects (step opts (run opts (processMultipart opts req) es) Aborted))
     = next_calls (effects (run opts (processMultipart opts req) es))
   \<and> effects (lib_step opts (lib_run opts (lib_processMultipart opts req) es) Aborted)
     = effects (lib_run opts (lib_processMultipart opts req) es)
       @ map Cleanup [0..<length (parts (lib_run opts (lib_processMultipart opts req) es))]
   \<and> cleanups (lib_run opts (lib_processMultipart opts req) es)
     = [0..<length (parts (lib_run opts (lib_processMultipart opts req) es))]
   \<and> next_calls (effects (lib_step opts (lib_run opts (lib_processMultipart opts req) es) Aborted))
     = next_calls (effects (lib_run opts (lib_processMultipart opts req) es))"
proof -
  define s where "s = run opts (processMultipart opts req) es"
  define t where "t = lib_run opts (lib_processMultipart opts req) es"
  have ws: "wf s"
    unfolding s_def by (rule run_wf) (rule processMultipart_wf)
  have wt: "wf t"
    unfolding t_def by (rule lib_run_wf) (rule processMultipart_wf)+
  have es: "effects (step opts s Aborted) = effects s @ map Cleanup [0..<length (parts s)]"
    using ws by (auto simp add: wf_def on_aborted_def cleanAll_def emit_def)
  have et: "effects (lib_step opts t Aborted) = effects t @ map Cleanup [0..<length (parts t)]"
    using wt by (simp add: wf_def lib_on_aborted_def emit_def)
  have cs: "cleanups s = [0..<length (parts s)]" and ct: "cleanups t = [0..<length (parts t)]"
    using ws wt by (simp_all add: wf_def)
  have ns: "next_calls (effects (step opts s Aborted)) = next_calls (effects s)"
    unfolding es by simp
  have nt: "next_calls (effects (lib_step opts t Aborted)) = next_calls (effects t)"
    unfolding et by simp
  show ?thesis
    using es et cs ct ns nt unfolding s_def t_def by blast
qed

subsection \<open>The upload timer of lib/processMultipart.js\<close>

text \<open>
  C7. The claim is what \<^verbatim>\<open>clearUploadTimer\<close> is there for, and the code breaks it: no handler
  of \<^verbatim>\<open>end\<close>, \<^verbatim>\<open>error\<close> or \<^verbatim>\<open>limit\<close> calls \<^verbatim>\<open>clearUploadTimer\<close>. After a part has ended
  (nothing called so far, the timer still armed) the timer expires and calls the cleanup of
  the finished part; the same after the part's \<^verbatim>\<open>error\<close> and after its \<^verbatim>\<open>limit\<close>.
\<close>

theorem upload_timer_fires_after_end:
  "uploadTimer (parts (lib_run demo_options (lib_processMultipart demo_options demo_request)
      [File ''doc'' ''a.txt'' ''7bit'' ''text/plain'', FileData 0 ''ab'', FileEnd 0]) ! 0) = Armed
   \<and> effects (lib_run demo_options (lib_processMultipart demo_options demo_request)
      [File ''doc'' ''a.txt'' ''7bit'' ''text/plain'', FileData 0 ''ab'', FileEnd 0]) = [Pipe]
   \<and> effects (lib_run demo_options (lib_processMultipart demo_options demo_request)
      [File ''doc'' ''a.txt'' ''7bit'' ''text/plain'', FileData 0 ''ab'', FileEnd 0, Timeout 0])
     = [Pipe, Cleanup 0]
   \<and> effects (lib_run demo_options (lib_processMultipart demo_options demo_request)
      [File ''doc'' ''a.txt'' ''7bit'' ''text/plain'', FileData 0 ''ab'',
       FileError 0 (Failure ''reset''), Timeout 0])
     = [Pipe, Cleanup 0, Next None, Cleanup 0]
   \<and> effects (lib_run bare_options (lib_processMultipart bare_options demo_request)
      [File ''doc'' ''a.txt'' ''7bit'' ''text/plain'', FileData 0 ''ab'', FileLimit 0, Timeout 0])
     = [Pipe, Cleanup 0]"
  by (simp add: lib_run_def lib_processMultipart_def lib_handler_defs setUploadTimer_def
      clearUploadTimer_def new_part_def dataHandler_def demo_options_simps bare_options_simps
      isFunc_def buildFields_def fileFactory_def)


subsection \<open>What the helpers leave unchanged\<close>

lemma delivered_frame [simp]:
  "delivered (emit fs s) = delivered s"
  "delivered (s\<lparr>effects := fs\<rparr>) = delivered s"
  "delivered (s\<lparr>totalSize := n\<rparr>) = delivered s"
  "delivered (s\<lparr>files := fm\<rparr>) = delivered s"
  "delivered (s\<lparr>body := bm\<rparr>) = delivered s"
  "delivered (s\<lparr>waitFlush := w\<rparr>) = delivered s"
  "delivered (s\<lparr>barriers := bs\<rparr>) = delivered s"
  "delivered (s\<lparr>nested := k\<rparr>) = delivered s"
  "delivered (s\<lparr>cleanups := cs\<rparr>) = delivered s"
  by (simp_all add: delivered_def emit_def)

lemma frame_simple [simp]:
  "totalSize (emit fs s) = totalSize s" "parts (emit fs s) = parts s"
  "totalSize (cleanAll s) = totalSize s" "parts (cleanAll s) = parts s"
  "delivered (cleanAll s) = delivered s"
  "totalSize (call_limitHandler opts s) = totalSize s"
  "parts (call_limitHandler opts s) = parts s"
  "parts (closeConnection c r s) = parts s"
  "delivered (call_limitHandler opts s) = delivered s"
  "totalSize (closeConnection c r s) = totalSize s"
  "delivered (closeConnection c r s) = delivered s"
  "totalSize (upd_part p f s) = totalSize s"
  "totalSize (mark_truncated p s) = totalSize s"
  "totalSize (settle p q s) = totalSize s"
  by (simp_all add: emit_def cleanAll_def call_limitHandler_def closeConnection_def
      upd_part_def mark_truncated_def settle_def split: option.split)

lemma next_calls_simple [simp]:
  "next_calls (effects (emit fs s)) = next_calls (effects s) @ next_calls fs"
  "next_calls (effects (cleanAll s)) = next_calls (effects s)"
  "next_calls (effects (call_limitHandler opts s)) = next_calls (effects s)"
  "next_calls (effects (closeConnection c r s)) = next_calls (effects s)"
  "effects (upd_part p f s) = effects s"
  "effects (mark_truncated p s) = effects s"
  "effects (settle p q s) = effects s"
  by (simp_all add: emit_def cleanAll_def call_limitHandler_def closeConnection_def
      upd_part_def mark_truncated_def settle_def split: option.split)

lemma barriers_simple [simp]:
  "barriers (emit fs s) = barriers s"
  "barriers (cleanAll s) = barriers s"
  "barriers (call_limitHandler opts s) = barriers s"
  "barriers (closeConnection c r s) = barriers s"
  "barriers (upd_part p f s) = barriers s"
  "barriers (mark_truncated p s) = barriers s"
  by (simp_all add: emit_def cleanAll_def call_limitHandler_def closeConnection_def
      upd_part_def mark_truncated_def)

subsection \<open>The aggregate counter\<close>

lemma sum_list_map_update:
  "p < length xs \<Longrightarrow>
   sum_list (map g (xs[p := y])) + g (xs ! p) = sum_list (map g xs) + (g y :: nat)"
proof (induction xs arbitrary: p)
  case Nil
  then show ?case by simp
next
  case (Cons x xs)
  then show ?case by (cases p) (simp_all add: add.assoc add.left_commute)
qed

lemma delivered_same:
  assumes "p < length (parts s)" and "getFileSize (f (parts s ! p)) = getFileSize (parts s ! p)"
  shows "delivered (upd_part p f s) = delivered s"
  using sum_list_map_update [of p "parts s" getFileSize "f (parts s ! p)"] assms
  by (simp add: delivered_def upd_part_def)

lemma delivered_dataHandler:
  assumes "p < length (parts s)"
  shows "delivered (upd_part p (dataHandler d) s) = delivered s + length d"
  using sum_list_map_update [of p "parts s" getFileSize "dataHandler d (parts s ! p)"] assms
  by (simp add: delivered_def upd_part_def dataHandler_def getFileSize_def)

lemma delivered_microtask [simp]: "delivered (microtask opts s) = delivered s"
  by (simp add: delivered_def)

lemma delivered_on_file [simp]: "delivered (on_file opts fld name enc mim s) = delivered s"
  by (simp add: delivered_def on_file_def new_part_def getFileSize_def)

lemma delivered_mark_truncated [simp]:
  "p < length (parts s) \<Longrightarrow> delivered (mark_truncated p s) = delivered s"
  unfolding mark_truncated_def by (rule delivered_same) (simp_all add: getFileSize_def)

lemma delivered_settle [simp]:
  "p < length (parts s) \<Longrightarrow> delivered (settle p r s) = delivered s"
  by (cases r) (simp_all add: settle_def delivered_same getFileSize_def)

lemma step_totalSize_mono: "totalSize s \<le> totalSize (step opts s e)"
  by (cases e)
    (simp_all add: on_aborted_def on_field_def on_file_def on_file_limit_def on_file_data_def
      on_file_end_def on_file_error_def on_filesLimit_def on_finish_def on_busboy_error_def
      handler_def Let_def split: option.split)

lemma js_gt_mono: "js_gt (Some a) lim \<Longrightarrow> a \<le> b \<Longrightarrow> js_gt (Some b) lim"
  by (cases lim) simp_all

lemma on_file_data_accounted:
  assumes "accounted (limits_totalSize opts) s" and "p < length (parts s)"
  shows "accounted (limits_totalSize opts) (on_file_data opts p d s)"
proof (cases "js_gt (Some (totalSize s + length d)) (limits_totalSize opts)")
  case True
  then have "on_file_data opts p d s
      = call_limitHandler opts (cleanAll (emit [Unpipe] (s\<lparr>totalSize := totalSize s + length d\<rparr>)))"
    by (simp add: on_file_data_def)
  then show ?thesis
    using assms True by (auto simp add: accounted_def)
next
  case False
  then have eq: "on_file_data opts p d s
      = upd_part p (dataHandler d) (s\<lparr>totalSize := totalSize s + length d\<rparr>)"
    by (simp add: on_file_data_def)
  have old: "\<not> js_gt (Some (totalSize s)) (limits_totalSize opts)"
    using False js_gt_mono [of "totalSize s" "limits_totalSize opts" "totalSize s + length d"]
    by auto
  have "delivered (on_file_data opts p d s) = delivered s + length d"
    unfolding eq using assms(2) by (simp add: delivered_dataHandler)
  moreover have "totalSize (on_file_data opts p d s) = totalSize s + length d"
    unfolding eq by simp
  ultimately show ?thesis
    using assms(1) old False by (cases "limits_totalSize opts") (auto simp add: accounted_def)
qed

lemma handlers_frame [simp]:
  "delivered (on_file_limit opts p s) = delivered s"
  "totalSize (on_file_limit opts p s) = totalSize s"
  "delivered (on_file_end opts p s) = delivered s"
  "totalSize (on_file_end opts p s) = totalSize s"
  "delivered (on_finish opts s) = delivered s"
  "totalSize (on_finish opts s) = totalSize s"
  "delivered (on_file_error p s) = delivered s"
  "totalSize (on_file_error p s) = totalSize s"
  "delivered (on_filesLimit opts s) = delivered s"
  "totalSize (on_filesLimit opts s) = totalSize s"
  "delivered (on_field k v s) = delivered s"
  "totalSize (on_field k v s) = totalSize s"
  "totalSize (on_file opts fld name enc mim s) = totalSize s"
  "delivered (on_aborted s) = delivered s"
  "totalSize (on_aborted s) = totalSize s"
  "delivered (on_busboy_error e s) = delivered s"
  "totalSize (on_busboy_error e s) = totalSize s"
  by (simp_all add: on_file_limit_def on_file_end_def on_finish_def on_file_error_def
      on_filesLimit_def on_field_def on_file_def on_aborted_def on_busboy_error_def
      handler_def Let_def delivered_def split: option.split)

lemma step_accounted:
  assumes "accounted (limits_totalSize opts) s"
  shows "accounted (limits_totalSize opts) (step opts s e)"
proof (cases e)
  case (FileData p d)
  then show ?thesis using assms by (simp add: on_file_data_accounted)
qed (use assms in \<open>simp_all add: accounted_def\<close>)

lemma run_accounted:
  "accounted (limits_totalSize opts) s \<Longrightarrow> accounted (limits_totalSize opts) (run opts s es)"
  unfolding run_def by (induction es arbitrary: s) (simp_all add: step_accounted)

lemma processMultipart_accounted: "accounted lim (processMultipart opts req)"
  by (cases lim) (simp_all add: accounted_def processMultipart_def Let_def delivered_def
      call_limitHandler_def emit_def)


text \<open>
  C2, as stated, fails: the chunk that takes the counter over \<^verbatim>\<open>limits.totalSize\<close> is counted
  but not handed to its sink, so the counter (6) is not the sum of the bytes delivered (2).
\<close>

theorem totalSize_counterexample:
  "totalSize (run demo_options demo_session [FileData 0 ''wxyz'']) = 6
   \<and> delivered (run demo_options demo_session [FileData 0 ''wxyz'']) = 2
   \<and> effects (run demo_options demo_session [FileData 0 ''wxyz''])
       = [Pipe, Unpipe, Cleanup 0, LimitHandler]"
  by (simp add: demo_session_eq run_def on_file_data_def demo_options_simps delivered_def
      getFileSize_def call_limitHandler_def cleanAll_def emit_def isFunc_def)

text \<open>
  C2, amended. The aggregate counter never decreases. In every session it is at least the
  sum of the lengths of the chunks delivered to the sinks' data handlers; it equals that
  sum as long as it does not exceed \<^verbatim>\<open>limits.totalSize\<close>, and is larger once it does.
\<close>

theorem totalSize_accounting:
  "totalSize s \<le> totalSize (step opts s e)
   \<and> delivered (run opts (processMultipart opts req) es)
       \<le> totalSize (run opts (processMultipart opts req) es)
   \<and> (\<not> js_gt (Some (totalSize (run opts (processMultipart opts req) es)))
           (limits_totalSize opts) \<longrightarrow>
        delivered (run opts (processMultipart opts req) es)
          = totalSize (run opts (processMultipart opts req) es))
   \<and> (js_gt (Some (totalSize (run opts (processMultipart opts req) es)))
           (limits_totalSize opts) \<longrightarrow>
        delivered (run opts (processMultipart opts req) es)
          < totalSize (run opts (processMultipart opts req) es))"
proof -
  define t where "t = run opts (processMultipart opts req) es"
  have acc: "accounted (limits_totalSize opts) t"
    unfolding t_def by (rule run_accounted) (rule processMultipart_accounted)
  have le: "delivered t \<le> totalSize t"
    and eq: "\<not> js_gt (Some (totalSize t)) (limits_totalSize opts) \<Longrightarrow>
             delivered t = totalSize t"
    using acc by (auto simp add: accounted_def)
  have lt: "delivered t < totalSize t" if "js_gt (Some (totalSize t)) (limits_totalSize opts)"
    using that acc by (cases "limits_totalSize opts") (auto simp add: accounted_def)
  show ?thesis
    using step_totalSize_mono [of s opts e] le eq lt unfolding t_def by blast
qed

theorem totalSize_accounting_witness:
  "\<not> js_gt (Some (totalSize (run demo_options (processMultipart demo_options demo_request)
          [File ''doc'' ''a.txt'' ''7bit'' ''text/plain'', FileData 0 ''ab''])))
        (limits_totalSize demo_options)
   \<and> delivered (run demo_options (processMultipart demo_options demo_request)
          [File ''doc'' ''a.txt'' ''7bit'' ''text/plain'', FileData 0 ''ab'']) = 2
   \<and> js_gt (Some (totalSize (run demo_options (processMultipart demo_options demo_request)
          [File ''doc'' ''a.txt'' ''7bit'' ''text/plain'', FileData 0 ''abcdef''])))
        (limits_totalSize demo_options)
   \<and> delivered (run demo_options (processMultipart demo_options demo_request)
          [File ''doc'' ''a.txt'' ''7bit'' ''text/plain'', FileData 0 ''abcdef''])
       < totalSize (run demo_options (processMultipart demo_options demo_request)
          [File ''doc'' ''a.txt'' ''7bit'' ''text/plain'', FileData 0 ''abcdef''])"
  using totalSize_accounting [of demo_session demo_options Finish demo_request
      "[File ''doc'' ''a.txt'' ''7bit'' ''text/plain'', FileData 0 ''ab'']"]
    totalSize_accounting [of demo_session demo_options Finish demo_request
      "[File ''doc'' ''a.txt'' ''7bit'' ''text/plain'', FileData 0 ''abcdef'']"]
  by (simp add: run_def processMultipart_def demo_request_def demo_options_simps emit_def
      on_file_def new_part_def on_file_data_def upd_part_def dataHandler_def
      call_limitHandler_def cleanAll_def)

text \<open>
  C3. A chunk for a part first increments the aggregate counter by its length. When the
  incremented counter exceeds \<^verbatim>\<open>limits.totalSize\<close> (a limit handler being configured), the
  request is unpiped, every registered cleanup runs, the limit handler is called, in this
  order, and no sink changes: the chunk is not forwarded. Otherwise the chunk goes to the
  data handler of its part and nothing is called. In every session the bytes delivered to
  the sinks stay within the cap.
\<close>

theorem aggregate_cap:
  "(isFunc (limitHandler opts) \<and> busboy s \<and> p < length (parts s)
      \<and> js_gt (Some (totalSize s + length d)) (limits_totalSize opts) \<longrightarrow>
        totalSize (step opts s (FileData p d)) = totalSize s + length d
      \<and> effects (step opts s (FileData p d))
          = effects s @ [Unpipe] @ map Cleanup (cleanups s) @ [LimitHandler]
      \<and> parts (step opts s (FileData p d)) = parts s)
   \<and> (busboy s \<and> p < length (parts s)
      \<and> \<not> js_gt (Some (totalSize s + length d)) (limits_totalSize opts) \<longrightarrow>
        totalSize (step opts s (FileData p d)) = totalSize s + length d
      \<and> effects (step opts s (FileData p d)) = effects s
      \<and> parts (step opts s (FileData p d)) = (parts s)[p := dataHandler d (parts s ! p)])
   \<and> (limits_totalSize opts = Some cap \<longrightarrow>
        delivered (run opts (processMultipart opts req) es) \<le> cap)"
proof -
  have over: "totalSize (step opts s (FileData p d)) = totalSize s + length d
      \<and> effects (step opts s (FileData p d))
          = effects s @ [Unpipe] @ map Cleanup (cleanups s) @ [LimitHandler]
      \<and> parts (step opts s (FileData p d)) = parts s"
    if "isFunc (limitHandler opts)" "busboy s" "p < length (parts s)"
      "js_gt (Some (totalSize s + length d)) (limits_totalSize opts)"
    using that by (simp add: on_file_data_def call_limitHandler_def cleanAll_def emit_def)
  have under: "totalSize (step opts s (FileData p d)) = totalSize s + length d
      \<and> effects (step opts s (FileData p d)) = effects s
      \<and> parts (step opts s (FileData p d)) = (parts s)[p := dataHandler d (parts s ! p)]"
    if "busboy s" "p < length (parts s)"
      "\<not> js_gt (Some (totalSize s + length d)) (limits_totalSize opts)"
    using that by (simp add: on_file_data_def upd_part_def)
  have "accounted (limits_totalSize opts) (run opts (processMultipart opts req) es)"
    by (rule run_accounted) (rule processMultipart_accounted)
  then have cap: "delivered (run opts (processMultipart opts req) es) \<le> cap"
    if "limits_totalSize opts = Some cap"
    using that by (simp add: accounted_def)
  show ?thesis
    using over under cap by blast
qed

theorem aggregate_cap_witness:
  "isFunc (limitHandler demo_options) \<and> busboy demo_session \<and> 0 < length (parts demo_session)
   \<and> js_gt (Some (totalSize demo_session + length ''wxyz'')) (limits_totalSize demo_options)
   \<and> effects (step demo_options demo_session (FileData 0 ''wxyz''))
       = [Pipe, Unpipe, Cleanup 0, LimitHandler]
   \<and> parts (step demo_options demo_session (FileData 0 ''wxyz'')) = parts demo_session
   \<and> \<not> js_gt (Some (totalSize demo_session + length ''xyz'')) (limits_totalSize demo_options)
   \<and> map written (parts (step demo_options demo_session (FileData 0 ''xyz'')))
       = [[''ab'', ''xyz'']]
   \<and> limits_totalSize demo_options = Some 5
   \<and> delivered (run demo_options (processMultipart demo_options demo_request)
         [File ''doc'' ''a.txt'' ''7bit'' ''text/plain'', FileData 0 ''ab'',
          FileData 0 ''wxyz'', FileData 0 ''xyz'']) \<le> 5"
  using aggregate_cap [of demo_options demo_session 0 "''wxyz''" 5 demo_request
      "[File ''doc'' ''a.txt'' ''7bit'' ''text/plain'', FileData 0 ''ab'',
        FileData 0 ''wxyz'', FileData 0 ''xyz'']"]
    aggregate_cap [of demo_options demo_session 0 "''xyz''" 5 demo_request "[]"]
  by (simp add: demo_session_eq) (simp add: demo_options_simps isFunc_def dataHandler_def)

subsection \<open>Completion\<close>

lemma step_calm:
  assumes "\<not> is_error_event e" and "e \<noteq> Finish" and "e \<noteq> Microtask"
  shows "next_calls (effects (step opts s e)) = next_calls (effects s)
       \<and> map awaited (barriers (step opts s e)) = map awaited (barriers s)"
proof (cases e)
  case (Settle p r)
  have "map awaited (map (note_rejection p x) bs) = map awaited bs" for x bs
    by (induction bs) (simp_all add: note_rejection_def)
  then show ?thesis
    using Settle by (cases r) (simp_all add: settle_def upd_part_def)
qed (use assms in \<open>simp_all add: on_aborted_def on_field_def on_file_def on_file_limit_def
      on_file_data_def on_file_end_def on_filesLimit_def Let_def split: option.split\<close>)

lemma step_length_parts: "length (parts s) \<le> length (parts (step opts s e))"
  by (cases e)
    (simp_all add: on_aborted_def on_field_def on_file_def on_file_limit_def on_file_data_def
      on_file_end_def on_file_error_def on_filesLimit_def on_finish_def on_busboy_error_def
      handler_def settle_def upd_part_def mark_truncated_def Let_def split: option.split)

lemma step_fulfilled:
  assumes "p < length (parts s)" and "writePromise (parts s ! p) = Fulfilled"
  shows "writePromise (parts (step opts s e) ! p) = Fulfilled"
  using assms
  by (cases e)
    (auto simp add: on_aborted_def on_field_def on_file_def on_file_limit_def on_file_data_def
      on_file_end_def on_file_error_def on_filesLimit_def on_finish_def on_busboy_error_def
      handler_def settle_def upd_part_def mark_truncated_def dataHandler_def Let_def
      nth_append nth_list_update split: option.split)

lemma step_valid_ids: "valid_ids s w \<Longrightarrow> valid_ids (step opts s e) w"
  using step_length_parts [of s opts e]
  by (auto simp add: valid_ids_def list_all_iff)

lemma step_all_fulfilled:
  "valid_ids s w \<Longrightarrow> all_fulfilled (parts s) w \<Longrightarrow> all_fulfilled (parts (step opts s e)) w"
  by (auto simp add: valid_ids_def all_fulfilled_def list_all_iff step_fulfilled)


lemma microtask_barrier_inv:
  assumes "barrier_inv w s"
  shows "barrier_inv w (microtask opts s)"
proof (cases "barriers s")
  case Nil
  then have "microtask opts s = s"
    by (simp add: microtask_def)
  then show ?thesis using assms by simp
next
  case (Cons b bs)
  with assms have bs: "bs = []" and w: "awaited b = w"
    and nc: "next_calls (effects s) = []" and v: "valid_ids s w"
    by (simp_all add: barrier_inv_def)
  have m: "microtask opts s = react opts b (s\<lparr>barriers := []\<rparr>)"
    using Cons bs by (simp add: microtask_def)
  show ?thesis
    unfolding m using w nc v Cons bs
    by (simp add: react_def handler_def emit_def barrier_inv_def valid_ids_def
        split: option.split)
qed

lemma step_barrier_inv:
  assumes "barrier_inv w s" and "\<not> is_error_event e" and "e \<noteq> Finish"
  shows "barrier_inv w (step opts s e)"
proof (cases "e = Microtask")
  case True
  then show ?thesis using assms(1) by (simp add: microtask_barrier_inv)
next
  case False
  have calm: "next_calls (effects (step opts s e)) = next_calls (effects s)"
    "map awaited (barriers (step opts s e)) = map awaited (barriers s)"
    using step_calm [OF assms(2,3) False] by simp_all
  have nil: "barriers (step opts s e) = [] \<longleftrightarrow> barriers s = []"
    using calm(2) by (metis map_is_Nil_conv)
  have v: "valid_ids (step opts s e) w"
    using assms(1) by (simp add: barrier_inv_def step_valid_ids)
  have f: "all_fulfilled (parts (step opts s e)) w" if "all_fulfilled (parts s) w"
    using that assms(1) by (simp add: barrier_inv_def step_all_fulfilled)
  show ?thesis
    using assms(1) v f unfolding barrier_inv_def nil calm by auto
qed

lemma run_barrier_inv:
  "barrier_inv w s \<Longrightarrow> no_error_events es \<Longrightarrow> Finish \<notin> set es \<Longrightarrow>
   barrier_inv w (run opts s es)"
  unfolding run_def no_error_events_def
  by (induction es arbitrary: s) (auto simp add: step_barrier_inv)

lemma step_registered:
  assumes "barriers s = []" and "valid_ids s (registered s)"
  shows "valid_ids (step opts s e) (registered (step opts s e))"
proof (cases e)
  case (FileEnd p)
  then show ?thesis
    using assms(2)
    by (auto simp add: on_file_end_def registered_def valid_ids_def Let_def
        split: option.splits)
next
  case Microtask
  then show ?thesis using assms by (simp add: microtask_def valid_ids_def registered_def)
next
  case (File fld name enc mim)
  then show ?thesis
    using assms(2)
    by (auto simp add: on_file_def registered_def valid_ids_def list_all_iff
        split: option.splits)
qed (use assms(2) in \<open>auto simp add: on_aborted_def on_field_def on_file_limit_def
      on_file_data_def on_file_error_def on_filesLimit_def on_finish_def on_busboy_error_def
      handler_def settle_def upd_part_def mark_truncated_def emit_def cleanAll_def
      call_limitHandler_def closeConnection_def registered_def valid_ids_def Let_def
      split: option.splits\<close>)

lemma step_quiet:
  assumes "quiet s" and "\<not> is_error_event e" and "e \<noteq> Finish"
  shows "quiet (step opts s e)"
proof (cases "e = Microtask")
  case True
  then show ?thesis using assms(1) by (simp add: quiet_def microtask_def valid_ids_def registered_def)
next
  case False
  have "map awaited (barriers (step opts s e)) = []"
    using step_calm [OF assms(2,3) False, of opts s] assms(1) by (simp add: quiet_def)
  then have "barriers (step opts s e) = []" by simp
  then show ?thesis
    using step_calm [OF assms(2,3) False, of opts s] assms(1) step_registered [of s opts e]
    by (simp add: quiet_def)
qed

lemma run_quiet:
  "quiet s \<Longrightarrow> no_error_events es \<Longrightarrow> Finish \<notin> set es \<Longrightarrow> quiet (run opts s es)"
  unfolding run_def no_error_events_def
  by (induction es arbitrary: s) (auto simp add: step_quiet)

lemma processMultipart_quiet: "quiet (processMultipart opts req)"
  by (simp add: quiet_def processMultipart_def Let_def call_limitHandler_def emit_def
      valid_ids_def registered_def)

lemma finish_barrier_inv:
  assumes "quiet s" and "busboy s"
  shows "barrier_inv (registered s) (step opts s Finish)"
  using assms
  by (auto simp add: quiet_def barrier_inv_def on_finish_def handler_def emit_def
      registered_def valid_ids_def all_fulfilled_def split: option.splits)

lemma barrier_inv_once:
  assumes "barrier_inv w s"
  shows "length (next_calls (effects s)) \<le> 1
       \<and> (None \<in> set (next_calls (effects s)) \<longrightarrow> all_fulfilled (parts s) w)"
proof (cases "barriers s = []")
  case True
  with assms have l: "length (next_calls (effects s)) = 1"
    and f: "next_calls (effects s) \<noteq> [None] \<or> all_fulfilled (parts s) w"
    by (simp_all add: barrier_inv_def)
  from l obtain r where r: "next_calls (effects s) = [r]"
    by (cases "next_calls (effects s)") simp_all
  show ?thesis using f r by auto
next
  case False
  with assms show ?thesis by (simp add: barrier_inv_def)
qed

lemmas eval_defs =
  run_def processMultipart_def emit_def on_file_def new_part_def on_file_data_def
  upd_part_def dataHandler_def on_file_end_def on_file_error_def on_finish_def handler_def
  cleanAll_def call_limitHandler_def settle_def microtask_def react_def all_fulfilled_def
  note_rejection_def buildFields_def fileFactory_def registered_def no_error_events_def
  demo_request_def demo_options_simps

text \<open>
  C1, as stated, fails. A part's \<^verbatim>\<open>error\<close> event calls \<^verbatim>\<open>next()\<close> and the later \<^verbatim>\<open>finish\<close> calls
  it again: two calls in one session. And the \<^verbatim>\<open>next()\<close> of a part's \<^verbatim>\<open>error\<close> event does not
  wait: it is called while the write promise registered by an earlier part is pending.
\<close>

theorem completion_counterexample:
  "next_calls (effects (run demo_options (processMultipart demo_options demo_request)
      [File ''doc'' ''a.txt'' ''7bit'' ''text/plain'', FileError 0 (Failure ''reset''), Finish]))
     = [None, None]
   \<and> next_calls (effects (run demo_options (processMultipart demo_options demo_request)
      [File ''doc'' ''a.txt'' ''7bit'' ''text/plain'', File ''doc'' ''b.txt'' ''7bit'' ''text/plain'',
       FileEnd 0, FileError 1 (Failure ''reset'')]))
     = [None]
   \<and> waitFlush (run demo_options (processMultipart demo_options demo_request)
      [File ''doc'' ''a.txt'' ''7bit'' ''text/plain'', File ''doc'' ''b.txt'' ''7bit'' ''text/plain'',
       FileEnd 0, FileError 1 (Failure ''reset'')])
     = Some [0]
   \<and> writePromise (parts (run demo_options (processMultipart demo_options demo_request)
      [File ''doc'' ''a.txt'' ''7bit'' ''text/plain'', File ''doc'' ''b.txt'' ''7bit'' ''text/plain'',
       FileEnd 0, FileError 1 (Failure ''reset'')]) ! 0)
     = Pending"
  by (simp add: eval_defs)

text \<open>
  C1, amended. In a session without a part \<^verbatim>\<open>error\<close> or decoder \<^verbatim>\<open>error\<close> event, in which the
  decoder emits \<^verbatim>\<open>finish\<close> once, \<^verbatim>\<open>next\<close> is not called before \<^verbatim>\<open>finish\<close>, it is called at
  most once, and it is called without an error only when every write promise collected in
  \<^verbatim>\<open>req[waitFlushProperty]\<close> at \<^verbatim>\<open>finish\<close> is fulfilled.
\<close>

theorem completion_after_flush:
  assumes "no_error_events pre" and "no_error_events post"
    and "Finish \<notin> set pre" and "Finish \<notin> set post"
  shows "next_calls (effects (run opts (processMultipart opts req) pre)) = []
       \<and> length (next_calls (effects
             (run opts (processMultipart opts req) (pre @ Finish # post)))) \<le> 1
       \<and> (None \<in> set (next_calls (effects
             (run opts (processMultipart opts req) (pre @ Finish # post)))) \<longrightarrow>
           all_fulfilled (parts (run opts (processMultipart opts req) (pre @ Finish # post)))
             (registered (run opts (processMultipart opts req) pre)))"
proof -
  define s0 where "s0 = run opts (processMultipart opts req) pre"
  define s where "s = run opts (step opts s0 Finish) post"
  have split: "run opts (processMultipart opts req) (pre @ Finish # post) = s"
    by (simp add: s_def s0_def run_def)
  have q0: "quiet s0"
    unfolding s0_def using assms(1,3) by (intro run_quiet processMultipart_quiet)
  have goal: "length (next_calls (effects s)) \<le> 1
       \<and> (None \<in> set (next_calls (effects s)) \<longrightarrow> all_fulfilled (parts s) (registered s0))"
  proof (cases "busboy s0")
    case True
    have "barrier_inv (registered s0) s"
      unfolding s_def using q0 True assms(2,4)
      by (intro run_barrier_inv finish_barrier_inv)
    then show ?thesis by (rule barrier_inv_once)
  next
    case False
    then have "step opts s0 Finish = s0" by simp
    then have "quiet s"
      unfolding s_def using q0 assms(2,4) by (simp add: run_quiet)
    then show ?thesis by (simp add: quiet_def)
  qed
  show ?thesis
    unfolding split using q0 goal unfolding s0_def quiet_def by simp
qed


theorem completion_after_flush_witness:
  "no_error_events [File ''doc'' ''a.txt'' ''7bit'' ''text/plain'', FileData 0 ''ab'', FileEnd 0]
   \<and> no_error_events [Settle 0 None, Microtask]
   \<and> Finish \<notin> set [File ''doc'' ''a.txt'' ''7bit'' ''text/plain'', FileData 0 ''ab'', FileEnd 0]
   \<and> Finish \<notin> set [Settle 0 None, Microtask]
   \<and> registered (run demo_options (processMultipart demo_options demo_request)
        [File ''doc'' ''a.txt'' ''7bit'' ''text/plain'', FileData 0 ''ab'', FileEnd 0]) = [0]
   \<and> next_calls (effects (run demo_options (processMultipart demo_options demo_request)
        ([File ''doc'' ''a.txt'' ''7bit'' ''text/plain'', FileData 0 ''ab'', FileEnd 0]
          @ Finish # [Microtask]))) = []
   \<and> next_calls (effects (run demo_options (processMultipart demo_options demo_request)
        ([File ''doc'' ''a.txt'' ''7bit'' ''text/plain'', FileData 0 ''ab'', FileEnd 0]
          @ Finish # [Settle 0 None, Microtask]))) = [None]
   \<and> all_fulfilled (parts (run demo_options (processMultipart demo_options demo_request)
        ([File ''doc'' ''a.txt'' ''7bit'' ''text/plain'', FileData 0 ''ab'', FileEnd 0]
          @ Finish # [Settle 0 None, Microtask]))) [0]"
  using completion_after_flush [of
      "[File ''doc'' ''a.txt'' ''7bit'' ''text/plain'', FileData 0 ''ab'', FileEnd 0]"
      "[Settle 0 None, Microtask]" demo_options demo_request]
  by (simp add: eval_defs)

end
